theory Spec2Isabelle
  imports Complex_Main "HOL-Library.Word" "HOL-Library.Sublist"
begin

section \<open>The chat front end (frontend/src/App.tsx)\<close>

text \<open>
  The React component \<open>App\<close> keeps its state in \<open>useState\<close> cells and changes it in
  three handlers: \<open>handleSendMessage\<close>, \<open>handleFileUpload\<close> and \<open>handleClearChat\<close>.
  The state is a record, each handler a function from the state to the requests it
  issues and the next state. What a handler reads from its surroundings is a parameter:
  the clock (\<open>Date.now()\<close>, \<open>new Date().toISOString()\<close>), the answer of the server
  to a request, the answer of the user to \<open>window.confirm\<close>.
\<close>

subsection \<open>Strings\<close>

text \<open>
  A JavaScript string is a sequence of UTF-16 code units. \<open>js\<close> reads an ASCII
  literal of the source as such a sequence.
\<close>

type_synonym jsstring = "16 word list"

definition js :: "string \<Rightarrow> jsstring" where
  "js cs = map (\<lambda>c. of_char c) cs"

text \<open>
  \<open>String.prototype.trim\<close> removes the white space and line terminators of ECMAScript
  from both ends: TAB, LF, VT, FF, CR, SP, NBSP, the space separators of Unicode
  (U+1680, U+2000 to U+200A, U+202F, U+205F, U+3000), LS, PS and the byte order mark.
\<close>

definition whitespace :: "16 word list" where
  "whitespace =
     [0x0009, 0x000A, 0x000B, 0x000C, 0x000D, 0x0020, 0x00A0, 0x1680,
      0x2000, 0x2001, 0x2002, 0x2003, 0x2004, 0x2005, 0x2006, 0x2007,
      0x2008, 0x2009, 0x200A, 0x2028, 0x2029, 0x202F, 0x205F, 0x3000, 0xFEFF]"

definition is_ws :: "16 word \<Rightarrow> bool" where
  "is_ws c = (c \<in> set whitespace)"

definition trim :: "jsstring \<Rightarrow> jsstring" where
  "trim s = rev (dropWhile is_ws (rev (dropWhile is_ws s)))"

text \<open>
  \<open>toLowerCase\<close>, exact on ASCII: \<open>A\<close> to \<open>Z\<close> become \<open>a\<close> to \<open>z\<close>. Code units
  outside ASCII are left as they are; JavaScript maps them by the Unicode tables. The
  only use is the comparison of a file extension with the literals of \<open>allowedTypes\<close>,
  and the tables map no code unit outside ASCII to a letter of these literals, so the
  comparison comes out the same.
\<close>

definition lower_unit :: "16 word \<Rightarrow> 16 word" where
  "lower_unit c = (if 0x41 \<le> c \<and> c \<le> 0x5A then c + 0x20 else c)"

definition toLowerCase :: "jsstring \<Rightarrow> jsstring" where
  "toLowerCase s = map lower_unit s"

text \<open>
  \<open>s.lastIndexOf(c)\<close> for a single code unit \<open>c\<close>: the index of its last occurrence,
  \<open>-1\<close> when there is none. The helper scans from the left and keeps the last hit.
\<close>

fun lastIndexOf_from :: "int \<Rightarrow> int \<Rightarrow> jsstring \<Rightarrow> 16 word \<Rightarrow> int" where
  "lastIndexOf_from i found [] c = found"
| "lastIndexOf_from i found (x # xs) c =
     lastIndexOf_from (i + 1) (if x = c then i else found) xs c"

definition lastIndexOf :: "jsstring \<Rightarrow> 16 word \<Rightarrow> int" where
  "lastIndexOf s c = lastIndexOf_from 0 (-1) s c"

text \<open>
  \<open>s.substring(start)\<close>: a negative start counts as 0, one beyond the length as the
  length.
\<close>

definition substring :: "jsstring \<Rightarrow> int \<Rightarrow> jsstring" where
  "substring s start = drop (nat (max 0 (min start (int (length s))))) s"

text \<open>\<open>xs.join(sep)\<close> on an array of strings.\<close>

fun join :: "jsstring \<Rightarrow> jsstring list \<Rightarrow> jsstring" where
  "join sep [] = []"
| "join sep [x] = x"
| "join sep (x # y # ys) = x @ sep @ join sep (y # ys)"

text \<open>
  A number inside a template literal is printed by \<open>Number.prototype.toString\<close>. For
  a whole number that JavaScript holds exactly, one below \<open>2^53\<close> in magnitude
  (\<open>Number.isSafeInteger\<close>), the text is its decimal numeral, with a minus sign when it
  is negative. Greater numbers are printed otherwise, rounded to seventeen digits and
  with an exponent from \<open>10^21\<close> on, so the numbers of the model that are printed are
  of a type that holds the whole numbers below \<open>2^53\<close> in magnitude and no others.
  \<open>show_nat\<close> prints the digits; the component applies it to \<open>Date.now()\<close>, a whole
  number of milliseconds that is always below \<open>2^53\<close>.
\<close>

typedef safe_integer = "{i :: int. \<bar>i\<bar> < 2 ^ 53}"
  morphisms safe_value Safe
  by (rule exI [of _ 0]) simp

function show_nat :: "nat \<Rightarrow> jsstring" where
  "show_nat n =
     (if n < 10 then [0x30 + of_nat n]
      else show_nat (n div 10) @ [0x30 + of_nat (n mod 10)])"
  by pat_completeness auto
termination
  by (relation "measure (\<lambda>n. n)") auto

declare show_nat.simps [simp del]

definition number_toString :: "safe_integer \<Rightarrow> jsstring" where
  "number_toString n =
     (if safe_value n < 0 then js ''-'' @ show_nat (nat (- safe_value n))
      else show_nat (nat (safe_value n)))"

text \<open>
  What a decimal numeral denotes, written from positional notation and not from the
  source: the digits are read from the left, each step multiplying by ten; a numeral
  is a sequence of digits that is not empty, or a minus sign before one. A text that
  is no numeral denotes nothing.
\<close>

definition is_digit :: "16 word \<Rightarrow> bool" where
  "is_digit c = (0x30 \<le> c \<and> c \<le> 0x39)"

definition digits_value :: "jsstring \<Rightarrow> nat" where
  "digits_value ds = foldl (\<lambda>v c. 10 * v + (unat c - 48)) 0 ds"

definition decimal_of :: "jsstring \<Rightarrow> int option" where
  "decimal_of d =
     (if d \<noteq> [] \<and> list_all is_digit d then Some (int (digits_value d))
      else if d \<noteq> [] \<and> hd d = 0x2D \<and> tl d \<noteq> [] \<and> list_all is_digit (tl d)
      then Some (- int (digits_value (tl d)))
      else None)"

text \<open>
  \<open>x || d\<close> on an optional string: the default when \<open>x\<close> is absent and also when it is
  the empty string, which is falsy.
\<close>

definition or_default :: "jsstring option \<Rightarrow> jsstring \<Rightarrow> jsstring" where
  "or_default x d = (case x of None \<Rightarrow> d | Some v \<Rightarrow> if v = [] then d else v)"

subsection \<open>Data\<close>

datatype role = User | Assistant

text \<open>
  \<open>interface SourceDocument\<close>. The relevance score is a number that the component
  stores and never computes with.
\<close>

record source_document =
  sd_content :: jsstring
  sd_filename :: jsstring
  sd_page :: "int option"
  sd_relevance_score :: real

text \<open>\<open>interface Message\<close>; \<open>sources?\<close> is an optional field.\<close>

record message =
  m_id :: jsstring
  m_role :: role
  m_content :: jsstring
  m_timestamp :: jsstring
  m_sources :: "source_document list option"

text \<open>\<open>interface UploadedFile\<close>. A chunk count is a whole number that JavaScript holds exactly.\<close>

record uploaded_file =
  uf_file_id :: jsstring
  uf_filename :: jsstring
  uf_chunks_created :: safe_integer
  uf_uploaded_at :: jsstring

datatype notification_type = Success | Error

record notification_rec =
  n_type :: notification_type
  n_message :: jsstring

text \<open>
  The \<open>useState\<close> cells of \<open>App\<close>, and \<open>fileInput\<close>: the value of the DOM element behind
  \<open>fileInputRef\<close>, \<open>None\<close> while the ref is \<open>null\<close>.
\<close>

record app_state =
  messages :: "message list"
  input :: jsstring
  loading :: bool
  sessionId :: jsstring
  uploadedFiles :: "uploaded_file list"
  uploading :: bool
  notification :: "notification_rec option"
  useRag :: bool
  fileInput :: "jsstring option"

text \<open>One reading of the clock: \<open>Date.now()\<close> and \<open>new Date().toISOString()\<close>.\<close>

record clock =
  now :: nat
  iso :: jsstring

text \<open>The body of the POST to \<open>/api/chat\<close> and the fields read from its response.\<close>

record chat_request =
  rq_message :: jsstring
  rq_session_id :: jsstring
  rq_use_rag :: bool

record chat_response =
  cr_response :: jsstring
  cr_timestamp :: jsstring
  cr_sources :: "source_document list option"

text \<open>The file picked in the file input, and the fields read from \<open>/api/upload\<close>.\<close>

record picked_file =
  file_name :: jsstring
  file_data :: "8 word list"

record upload_response =
  ur_file_id :: jsstring
  ur_filename :: jsstring
  ur_chunks_created :: safe_integer

text \<open>
  A rejected request: all the handlers read of the error is
  \<open>error.response?.data?.detail\<close>, which may be absent.
\<close>

datatype api_error = ApiError (detail: "jsstring option")

definition initial_state :: "nat \<Rightarrow> jsstring option \<Rightarrow> app_state" where
  "initial_state t fi =
     \<lparr>messages = [], input = [], loading = False,
      sessionId = js ''session_'' @ show_nat t,
      uploadedFiles = [], uploading = False, notification = None, useRag = True,
      fileInput = fi\<rparr>"

subsection \<open>Notifications\<close>

text \<open>
  \<open>showNotification\<close> sets the banner and starts a timer of five seconds; the timer
  firing is the separate step \<open>notification_timeout\<close>.
\<close>

definition showNotification :: "notification_type \<Rightarrow> jsstring \<Rightarrow> app_state \<Rightarrow> app_state" where
  "showNotification ty msg s = s\<lparr>notification := Some \<lparr>n_type = ty, n_message = msg\<rparr>\<rparr>"

definition notification_timeout :: "app_state \<Rightarrow> app_state" where
  "notification_timeout s = s\<lparr>notification := None\<rparr>"

subsection \<open>handleSendMessage\<close>

text \<open>The guard \<open>!input.trim() || loading\<close>.\<close>

definition send_blocked :: "app_state \<Rightarrow> bool" where
  "send_blocked s = (trim (input s) = [] \<or> loading s)"

definition userMessage :: "clock \<Rightarrow> app_state \<Rightarrow> message" where
  "userMessage k s =
     \<lparr>m_id = js ''msg_'' @ show_nat (now k), m_role = User, m_content = input s,
      m_timestamp = iso k, m_sources = None\<rparr>"

definition chat_request_of :: "app_state \<Rightarrow> chat_request" where
  "chat_request_of s =
     \<lparr>rq_message = input s, rq_session_id = sessionId s, rq_use_rag = useRag s\<rparr>"

text \<open>The handler up to its \<open>await\<close>.\<close>

definition send_begin :: "clock \<Rightarrow> app_state \<Rightarrow> app_state" where
  "send_begin k s =
     (if send_blocked s then s
      else s\<lparr>messages := messages s @ [userMessage k s], input := [], loading := True\<rparr>)"

text \<open>\<open>response.data.sources || []\<close>: an array, also an empty one, is truthy.\<close>

definition assistantMessage :: "clock \<Rightarrow> chat_response \<Rightarrow> message" where
  "assistantMessage k r =
     \<lparr>m_id = js ''msg_'' @ show_nat (now k) @ js ''_assistant'', m_role = Assistant,
      m_content = cr_response r, m_timestamp = cr_timestamp r,
      m_sources = Some (case cr_sources r of None \<Rightarrow> [] | Some ss \<Rightarrow> ss)\<rparr>"

text \<open>The cross mark at the head of the text is U+274C.\<close>

definition errorMessage :: "clock \<Rightarrow> message" where
  "errorMessage k =
     \<lparr>m_id = js ''msg_'' @ show_nat (now k) @ js ''_error'', m_role = Assistant,
      m_content = 0x274C # js '' Sorry, I encountered an error. Please try again.'',
      m_timestamp = iso k, m_sources = None\<rparr>"

text \<open>The rest of the \<open>try\<close> block once the request has resolved, then \<open>finally\<close>.\<close>

definition send_resolved :: "clock \<Rightarrow> chat_response \<Rightarrow> app_state \<Rightarrow> app_state" where
  "send_resolved k r s = (s\<lparr>messages := messages s @ [assistantMessage k r]\<rparr>)\<lparr>loading := False\<rparr>"

text \<open>The \<open>catch\<close> block, then \<open>finally\<close>.\<close>

definition send_rejected :: "clock \<Rightarrow> api_error \<Rightarrow> app_state \<Rightarrow> app_state" where
  "send_rejected k e s =
     (let s1 = showNotification Error (or_default (detail e) (js ''Failed to send message'')) s
      in (s1\<lparr>messages := messages s1 @ [errorMessage k]\<rparr>)\<lparr>loading := False\<rparr>)"

text \<open>
  The whole handler when nothing else happens while the request is in flight: the
  requests it issues and the state it leaves. \<open>k1\<close> is the clock before the request,
  \<open>k2\<close> the clock after it, \<open>backend\<close> the server.
\<close>

definition handleSendMessage ::
  "clock \<Rightarrow> (chat_request \<Rightarrow> api_error + chat_response) \<Rightarrow> clock \<Rightarrow> app_state
     \<Rightarrow> chat_request list \<times> app_state" where
  "handleSendMessage k1 backend k2 s =
     (if send_blocked s then ([], s)
      else
        let req = chat_request_of s; s1 = send_begin k1 s
        in (case backend req of
              Inr r \<Rightarrow> ([req], send_resolved k2 r s1)
            | Inl e \<Rightarrow> ([req], send_rejected k2 e s1)))"

text \<open>\<open>handleKeyPress\<close>: Enter without Shift sends.\<close>

definition handleKeyPress ::
  "jsstring \<Rightarrow> bool \<Rightarrow> clock \<Rightarrow> (chat_request \<Rightarrow> api_error + chat_response) \<Rightarrow> clock
     \<Rightarrow> app_state \<Rightarrow> chat_request list \<times> app_state" where
  "handleKeyPress key shiftKey k1 backend k2 s =
     (if key = js ''Enter'' \<and> \<not> shiftKey then handleSendMessage k1 backend k2 s else ([], s))"

subsection \<open>handleFileUpload\<close>

definition dot :: "16 word" where
  "dot = 0x2E"

definition allowedTypes :: "jsstring list" where
  "allowedTypes = [js ''.pdf'', js ''.txt'', js ''.docx'', js ''.pptx'', js ''.xlsx'']"

text \<open>\<open>file.name.substring(file.name.lastIndexOf('.')).toLowerCase()\<close>\<close>

definition fileExt :: "jsstring \<Rightarrow> jsstring" where
  "fileExt name = toLowerCase (substring name (lastIndexOf name dot))"

definition unsupported_notice :: jsstring where
  "unsupported_notice = js ''Unsupported file type. Allowed: '' @ join (js '', '') allowedTypes"

definition uploadedFile :: "clock \<Rightarrow> upload_response \<Rightarrow> uploaded_file" where
  "uploadedFile k r =
     \<lparr>uf_file_id = ur_file_id r, uf_filename = ur_filename r,
      uf_chunks_created = ur_chunks_created r, uf_uploaded_at = iso k\<rparr>"

definition uploaded_notice :: "picked_file \<Rightarrow> upload_response \<Rightarrow> jsstring" where
  "uploaded_notice f r =
     file_name f @ js '' uploaded successfully! '' @ number_toString (ur_chunks_created r)
       @ js '' chunks created.''"

text \<open>
  The handler up to its \<open>await\<close>: no file, a file of another type, or the start of an
  upload.
\<close>

definition upload_begin :: "picked_file option \<Rightarrow> app_state \<Rightarrow> app_state" where
  "upload_begin fo s =
     (case fo of
        None \<Rightarrow> s
      | Some f \<Rightarrow>
          if fileExt (file_name f) \<notin> set allowedTypes
          then showNotification Error unsupported_notice s
          else s\<lparr>uploading := True\<rparr>)"

text \<open>The \<open>finally\<close> block: the file input is emptied when the ref holds an element.\<close>

definition upload_finally :: "app_state \<Rightarrow> app_state" where
  "upload_finally s =
     (s\<lparr>uploading := False\<rparr>)
      \<lparr>fileInput := (case fileInput s of None \<Rightarrow> None | Some v \<Rightarrow> Some [])\<rparr>"

definition upload_resolved ::
  "picked_file \<Rightarrow> clock \<Rightarrow> upload_response \<Rightarrow> app_state \<Rightarrow> app_state" where
  "upload_resolved f k r s =
     upload_finally
       (showNotification Success (uploaded_notice f r)
          (s\<lparr>uploadedFiles := uploadedFiles s @ [uploadedFile k r]\<rparr>))"

definition upload_rejected :: "api_error \<Rightarrow> app_state \<Rightarrow> app_state" where
  "upload_rejected e s =
     upload_finally (showNotification Error (or_default (detail e) (js ''Upload failed'')) s)"

text \<open>
  The whole handler when nothing else happens while the request is in flight. The
  request carries the file in a form; \<open>k\<close> is the clock after the request.
\<close>

definition handleFileUpload ::
  "picked_file option \<Rightarrow> (picked_file \<Rightarrow> api_error + upload_response) \<Rightarrow> clock
     \<Rightarrow> app_state \<Rightarrow> picked_file list \<times> app_state" where
  "handleFileUpload fo backend k s =
     (case fo of
        None \<Rightarrow> ([], s)
      | Some f \<Rightarrow>
          if fileExt (file_name f) \<notin> set allowedTypes then ([], upload_begin fo s)
          else
            (case backend f of
               Inr r \<Rightarrow> ([f], upload_resolved f k r (upload_begin fo s))
             | Inl e \<Rightarrow> ([f], upload_rejected e (upload_begin fo s))))"

subsection \<open>handleClearChat\<close>

text \<open>\<open>confirmed\<close> is the answer of \<open>window.confirm\<close>.\<close>

definition handleClearChat :: "bool \<Rightarrow> app_state \<Rightarrow> app_state" where
  "handleClearChat confirmed s =
     (if confirmed then showNotification Success (js ''Chat cleared'') (s\<lparr>messages := []\<rparr>)
      else s)"

subsection \<open>What is rendered\<close>

text \<open>The \<open>disabled\<close> attribute of the send button: \<open>loading || !input.trim()\<close>.\<close>

definition send_button_disabled :: "app_state \<Rightarrow> bool" where
  "send_button_disabled s = (loading s \<or> trim (input s) = [])"

text \<open>
  The sources block of a message, \<open>message.sources && message.sources.length > 0 && ...\<close>:
  the list of sources it shows, \<open>None\<close> when no block is rendered.
\<close>

definition sources_block :: "message \<Rightarrow> source_document list option" where
  "sources_block m =
     (case m_sources m of
        None \<Rightarrow> None
      | Some ss \<Rightarrow> if 0 < length ss then Some ss else None)"

subsection \<open>The component as a transition system\<close>

text \<open>
  Everything that can happen to the component, one event per handler and one per
  continuation of a handler that awaits a request, so that other events may fall
  between the start of a request and its end.
\<close>

datatype event =
    SetInput jsstring
  | SendMessage clock
  | ChatResolved clock chat_response
  | ChatRejected clock api_error
  | FileChosen "picked_file option"
  | UploadResolved picked_file clock upload_response
  | UploadRejected api_error
  | ClearChat bool
  | ToggleRag
  | NotificationTimeout

fun step :: "event \<Rightarrow> app_state \<Rightarrow> app_state" where
  "step (SetInput v) s = s\<lparr>input := v\<rparr>"
| "step (SendMessage k) s = send_begin k s"
| "step (ChatResolved k r) s = send_resolved k r s"
| "step (ChatRejected k e) s = send_rejected k e s"
| "step (FileChosen fo) s = upload_begin fo s"
| "step (UploadResolved f k r) s = upload_resolved f k r s"
| "step (UploadRejected e) s = upload_rejected e s"
| "step (ClearChat confirmed) s = handleClearChat confirmed s"
| "step ToggleRag s = s\<lparr>useRag := \<not> useRag s\<rparr>"
| "step NotificationTimeout s = notification_timeout s"

fun run :: "event list \<Rightarrow> app_state \<Rightarrow> app_state" where
  "run [] s = s"
| "run (e # es) s = run es (step e s)"

text \<open>Only assistant turns carry a list of sources.\<close>

definition sources_only_on_assistant :: "message list \<Rightarrow> bool" where
  "sources_only_on_assistant ms = list_all (\<lambda>m. m_role m = User \<longrightarrow> m_sources m = None) ms"

subsection \<open>Concrete inputs\<close>

text \<open>A freshly mounted component, two readings of the clock, and servers that answer or fail.\<close>

definition example_state :: app_state where
  "example_state = initial_state 7 (Some (js ''C:/fakepath/a.pdf''))"

definition clock1 :: clock where
  "clock1 = \<lparr>now = 11, iso = js ''T1''\<rparr>"

definition clock2 :: clock where
  "clock2 = \<lparr>now = 12, iso = js ''T2''\<rparr>"

definition example_answer :: chat_response where
  "example_answer = \<lparr>cr_response = js ''ok'', cr_timestamp = js ''T9'', cr_sources = None\<rparr>"

definition backend_up :: "chat_request \<Rightarrow> api_error + chat_response" where
  "backend_up req = Inr example_answer"

definition backend_down :: "chat_request \<Rightarrow> api_error + chat_response" where
  "backend_down req = Inl (ApiError None)"

definition report_file :: picked_file where
  "report_file = \<lparr>file_name = js ''a.PDF'', file_data = []\<rparr>"

definition program_file :: picked_file where
  "program_file = \<lparr>file_name = js ''a.exe'', file_data = []\<rparr>"

definition example_ingest :: upload_response where
  "example_ingest = \<lparr>ur_file_id = js ''f1'', ur_filename = js ''a.PDF'', ur_chunks_created = Safe 12\<rparr>"

definition upload_up :: "picked_file \<Rightarrow> api_error + upload_response" where
  "upload_up f = Inr example_ingest"

definition upload_down :: "picked_file \<Rightarrow> api_error + upload_response" where
  "upload_down f = Inl (ApiError (Some (js ''too big'')))"

definition backend_busy :: "chat_request \<Rightarrow> api_error + chat_response" where
  "backend_busy req = Inl (ApiError (Some (js ''model unavailable'')))"

definition typed_state :: app_state where
  "typed_state = example_state\<lparr>input := js ''hi''\<rparr>"

definition blank_state :: app_state where
  "blank_state = example_state\<lparr>input := js '' ''\<rparr>"

definition example_events :: "event list" where
  "example_events =
     [SetInput (js ''hi''), SendMessage clock1, ToggleRag, ChatResolved clock2 example_answer,
      SetInput (js ''hi''), SendMessage clock1, ChatRejected clock2 (ApiError None)]"

section \<open>Properties\<close>

subsection \<open>Strings\<close>

lemma trim_Nil_iff: "trim s = [] \<longleftrightarrow> (\<forall>c\<in>set s. is_ws c)"
proof
  assume "trim s = []"
  then have a: "\<forall>x\<in>set (dropWhile is_ws s). is_ws x"
    by (simp add: trim_def dropWhile_eq_Nil_conv)
  have "dropWhile is_ws s = []"
  proof (rule ccontr)
    assume n: "dropWhile is_ws s \<noteq> []"
    then have "\<not> is_ws (hd (dropWhile is_ws s))" by (rule hd_dropWhile)
    moreover have "hd (dropWhile is_ws s) \<in> set (dropWhile is_ws s)" using n by simp
    ultimately show False using a by blast
  qed
  then show "\<forall>c\<in>set s. is_ws c" by (simp add: dropWhile_eq_Nil_conv)
next
  assume "\<forall>c\<in>set s. is_ws c"
  then show "trim s = []" by (auto simp: trim_def dest: set_dropWhileD)
qed

lemma lastIndexOf_from_absent:
  "c \<notin> set xs \<Longrightarrow> lastIndexOf_from i found xs c = found"
  by (induction xs arbitrary: i found) auto

lemma lastIndexOf_from_last:
  "c \<notin> set ys \<Longrightarrow> lastIndexOf_from i found (xs @ c # ys) c = i + int (length xs)"
  by (induction xs arbitrary: i found) (auto simp: lastIndexOf_from_absent)

lemma substring_no_dot: "dot \<notin> set name \<Longrightarrow> substring name (lastIndexOf name dot) = name"
  by (simp add: substring_def lastIndexOf_def lastIndexOf_from_absent)

lemma substring_last_dot:
  "dot \<notin> set ext \<Longrightarrow> substring (base @ dot # ext) (lastIndexOf (base @ dot # ext) dot) = dot # ext"
  by (simp add: substring_def lastIndexOf_def lastIndexOf_from_last)

lemma lower_unit_dot: "lower_unit c = dot \<longleftrightarrow> c = dot"
proof (cases "0x41 \<le> c \<and> c \<le> 0x5A")
  case True
  then have "c + 0x20 \<noteq> 0x2E" by unat_arith
  moreover have "c \<noteq> 0x2E" using True by unat_arith
  ultimately show ?thesis using True by (simp add: lower_unit_def dot_def)
next
  case False
  then show ?thesis by (auto simp: lower_unit_def dot_def)
qed

lemma toLowerCase_hd_dot: "toLowerCase s = dot # t \<Longrightarrow> dot \<in> set s"
  by (cases s) (auto simp: toLowerCase_def lower_unit_dot)

lemma allowedTypes_begin_dot: "x \<in> set allowedTypes \<Longrightarrow> \<exists>t. x = dot # t"
  by (auto simp: allowedTypes_def js_def dot_def)

lemma fileExt_no_dot: "dot \<notin> set name \<Longrightarrow> fileExt name \<notin> set allowedTypes"
proof
  assume n: "dot \<notin> set name" and "fileExt name \<in> set allowedTypes"
  then obtain t where "toLowerCase name = dot # t"
    using allowedTypes_begin_dot by (fastforce simp: fileExt_def substring_no_dot)
  then show False using n toLowerCase_hd_dot by blast
qed

lemma fileExt_last_dot:
  "dot \<notin> set ext \<Longrightarrow> fileExt (base @ dot # ext) = toLowerCase (dot # ext)"
  by (simp add: fileExt_def substring_last_dot)

lemma digit_unit:
  "n < 10 \<Longrightarrow> is_digit (0x30 + of_nat n) \<and> unat (0x30 + of_nat n :: 16 word) - 48 = n"
proof -
  assume "n < 10"
  then have "n \<in> {0, 1, 2, 3, 4, 5, 6, 7, 8, 9}" by auto
  then show ?thesis by (auto simp: is_digit_def)
qed

lemma show_nat_digits: "show_nat n \<noteq> [] \<and> list_all is_digit (show_nat n)"
proof (induction n rule: show_nat.induct)
  case (1 n)
  show ?case
  proof (cases "n < 10")
    case True
    then show ?thesis by (subst (1 2) show_nat.simps) (simp add: digit_unit)
  next
    case False
    then have "n mod 10 < 10" by simp
    then show ?thesis using False 1 by (subst (1 2) show_nat.simps) (simp add: digit_unit)
  qed
qed

lemma digits_value_snoc: "digits_value (ds @ [c]) = 10 * digits_value ds + (unat c - 48)"
  by (simp add: digits_value_def)

lemma digits_value_show_nat: "digits_value (show_nat n) = n"
proof (induction n rule: show_nat.induct)
  case (1 n)
  show ?case
  proof (cases "n < 10")
    case True
    then show ?thesis by (subst show_nat.simps) (simp add: digits_value_def digit_unit)
  next
    case False
    have "n mod 10 < 10" by simp
    then have "unat (0x30 + of_nat (n mod 10) :: 16 word) - 48 = n mod 10"
      by (simp add: digit_unit)
    then show ?thesis
      using False 1 by (subst show_nat.simps) (simp add: digits_value_snoc)
  qed
qed

lemma decimal_of_number_toString: "decimal_of (number_toString n) = Some (safe_value n)"
proof (cases "safe_value n < 0")
  case True
  have "\<not> is_digit 0x2D" by (simp add: is_digit_def)
  then show ?thesis
    using True show_nat_digits [of "nat (- safe_value n)"]
    by (simp add: decimal_of_def number_toString_def js_def digits_value_show_nat)
next
  case False
  then show ?thesis
    using show_nat_digits [of "nat (safe_value n)"]
    by (simp add: decimal_of_def number_toString_def digits_value_show_nat)
qed

lemma unsupported_notice_text:
  "unsupported_notice = js ''Unsupported file type. Allowed: .pdf, .txt, .docx, .pptx, .xlsx''"
  by (simp add: unsupported_notice_def allowedTypes_def js_def)




subsection \<open>Sending\<close>

text \<open>
  Claim C9. Sending does nothing when it may not happen: if the input is empty or has
  only white space in it, or a send is in flight (\<open>loading\<close>), the handler issues no
  request and returns the state as it was, from the button and from the Enter key
  alike; the send button is disabled under exactly these conditions.
\<close>

theorem send_blocked_is_noop:
  "(input s = [] \<or> (\<forall>c\<in>set (input s). is_ws c) \<or> loading s \<longrightarrow>
      handleSendMessage k1 backend k2 s = ([], s) \<and>
      handleKeyPress key shiftKey k1 backend k2 s = ([], s)) \<and>
   (send_button_disabled s \<longleftrightarrow>
      input s = [] \<or> (\<forall>c\<in>set (input s). is_ws c) \<or> loading s)"
proof -
  have b: "send_blocked s \<longleftrightarrow> input s = [] \<or> (\<forall>c\<in>set (input s). is_ws c) \<or> loading s"
    by (auto simp: send_blocked_def trim_Nil_iff)
  have d: "send_button_disabled s \<longleftrightarrow> send_blocked s"
    by (auto simp: send_button_disabled_def send_blocked_def)
  have "send_blocked s \<longrightarrow> handleSendMessage k1 backend k2 s = ([], s)"
    by (simp add: handleSendMessage_def)
  then show ?thesis
    unfolding d b [symmetric] by (simp add: handleKeyPress_def)
qed

theorem send_blocked_is_noop_witness:
  "list_all is_ws (js ''  '') \<and>
   handleSendMessage clock1 backend_up clock2 (example_state\<lparr>input := js ''  ''\<rparr>)
     = ([], example_state\<lparr>input := js ''  ''\<rparr>) \<and>
   send_button_disabled (example_state\<lparr>input := js ''  ''\<rparr>)"
  using send_blocked_is_noop [of "example_state\<lparr>input := js ''  ''\<rparr>" clock1 backend_up clock2]
  by (simp add: js_def is_ws_def whitespace_def)


text \<open>
  One send from a state where none is in flight, with a text that is not blank: the
  request, and the state when the request has come back either way.
\<close>

lemma send_once:
  "\<not> loading s \<Longrightarrow> trim t \<noteq> [] \<Longrightarrow>
   handleSendMessage k1 backend k2 (s\<lparr>input := t\<rparr>) =
     ([\<lparr>rq_message = t, rq_session_id = sessionId s, rq_use_rag = useRag s\<rparr>],
      s\<lparr>messages := messages s @
           [\<lparr>m_id = js ''msg_'' @ show_nat (now k1), m_role = User, m_content = t,
             m_timestamp = iso k1, m_sources = None\<rparr>,
            (case backend \<lparr>rq_message = t, rq_session_id = sessionId s, rq_use_rag = useRag s\<rparr> of
               Inr r \<Rightarrow> assistantMessage k2 r
             | Inl e \<Rightarrow> errorMessage k2)],
        input := [], loading := False,
        notification :=
          (case backend \<lparr>rq_message = t, rq_session_id = sessionId s, rq_use_rag = useRag s\<rparr> of
             Inr r \<Rightarrow> notification s
           | Inl e \<Rightarrow> Some \<lparr>n_type = Error, n_message =
                 or_default (detail e) (js ''Failed to send message'')\<rparr>)\<rparr>)"
  by (simp add: handleSendMessage_def send_blocked_def send_begin_def chat_request_of_def
      send_resolved_def send_rejected_def showNotification_def userMessage_def Let_def
      split: sum.splits)

lemma typed_state_ready: "\<not> loading typed_state \<and> trim (js ''hi'') \<noteq> []"
  by (simp add: typed_state_def example_state_def initial_state_def trim_def is_ws_def
      whitespace_def js_def)

text \<open>
  Claim C1. A send that succeeds appends exactly two messages: the user message with
  the text that was sent, then the assistant message with the content, the timestamp
  and the sources of the response (the empty list when the response has none). Two
  such sends, one after the other, leave the old transcript followed by user,
  assistant, user, assistant in the order of the calls.
\<close>

theorem send_success_appends_turns:
  "\<not> loading s \<and> trim t1 \<noteq> [] \<and> trim t2 \<noteq> [] \<and>
   backend \<lparr>rq_message = t1, rq_session_id = sessionId s, rq_use_rag = useRag s\<rparr> = Inr r1 \<and>
   backend \<lparr>rq_message = t2, rq_session_id = sessionId s, rq_use_rag = useRag s\<rparr> = Inr r2 \<longrightarrow>
   (let s1 = snd (handleSendMessage k1 backend k2 (s\<lparr>input := t1\<rparr>));
        s2 = snd (handleSendMessage k3 backend k4 (s1\<lparr>input := t2\<rparr>));
        u1 = \<lparr>m_id = js ''msg_'' @ show_nat (now k1), m_role = User, m_content = t1,
               m_timestamp = iso k1, m_sources = None\<rparr>;
        a1 = \<lparr>m_id = js ''msg_'' @ show_nat (now k2) @ js ''_assistant'', m_role = Assistant,
               m_content = cr_response r1, m_timestamp = cr_timestamp r1,
               m_sources = Some (case cr_sources r1 of None \<Rightarrow> [] | Some ss \<Rightarrow> ss)\<rparr>;
        u2 = \<lparr>m_id = js ''msg_'' @ show_nat (now k3), m_role = User, m_content = t2,
               m_timestamp = iso k3, m_sources = None\<rparr>;
        a2 = \<lparr>m_id = js ''msg_'' @ show_nat (now k4) @ js ''_assistant'', m_role = Assistant,
               m_content = cr_response r2, m_timestamp = cr_timestamp r2,
               m_sources = Some (case cr_sources r2 of None \<Rightarrow> [] | Some ss \<Rightarrow> ss)\<rparr>
    in fst (handleSendMessage k1 backend k2 (s\<lparr>input := t1\<rparr>)) =
         [\<lparr>rq_message = t1, rq_session_id = sessionId s, rq_use_rag = useRag s\<rparr>] \<and>
       messages s1 = messages s @ [u1, a1] \<and>
       messages s2 = messages s @ [u1, a1, u2, a2] \<and>
       map m_role (messages s2) = map m_role (messages s) @ [User, Assistant, User, Assistant])"
proof (intro impI)
  assume h: "\<not> loading s \<and> trim t1 \<noteq> [] \<and> trim t2 \<noteq> [] \<and>
   backend \<lparr>rq_message = t1, rq_session_id = sessionId s, rq_use_rag = useRag s\<rparr> = Inr r1 \<and>
   backend \<lparr>rq_message = t2, rq_session_id = sessionId s, rq_use_rag = useRag s\<rparr> = Inr r2"
  define s1 where "s1 = snd (handleSendMessage k1 backend k2 (s\<lparr>input := t1\<rparr>))"
  have m1: "messages s1 = messages s @ [userMessage k1 (s\<lparr>input := t1\<rparr>), assistantMessage k2 r1]"
    and l1: "\<not> loading s1" and i1: "sessionId s1 = sessionId s" and r1: "useRag s1 = useRag s"
    using h by (simp_all add: s1_def send_once userMessage_def)
  have m2: "messages (snd (handleSendMessage k3 backend k4 (s1\<lparr>input := t2\<rparr>))) =
      messages s1 @ [userMessage k3 (s\<lparr>input := t2\<rparr>), assistantMessage k4 r2]"
    using h l1 by (simp add: send_once i1 r1 userMessage_def)
  show "let s1 = snd (handleSendMessage k1 backend k2 (s\<lparr>input := t1\<rparr>));
        s2 = snd (handleSendMessage k3 backend k4 (s1\<lparr>input := t2\<rparr>));
        u1 = \<lparr>m_id = js ''msg_'' @ show_nat (now k1), m_role = User, m_content = t1,
               m_timestamp = iso k1, m_sources = None\<rparr>;
        a1 = \<lparr>m_id = js ''msg_'' @ show_nat (now k2) @ js ''_assistant'', m_role = Assistant,
               m_content = cr_response r1, m_timestamp = cr_timestamp r1,
               m_sources = Some (case cr_sources r1 of None \<Rightarrow> [] | Some ss \<Rightarrow> ss)\<rparr>;
        u2 = \<lparr>m_id = js ''msg_'' @ show_nat (now k3), m_role = User, m_content = t2,
               m_timestamp = iso k3, m_sources = None\<rparr>;
        a2 = \<lparr>m_id = js ''msg_'' @ show_nat (now k4) @ js ''_assistant'', m_role = Assistant,
               m_content = cr_response r2, m_timestamp = cr_timestamp r2,
               m_sources = Some (case cr_sources r2 of None \<Rightarrow> [] | Some ss \<Rightarrow> ss)\<rparr>
    in fst (handleSendMessage k1 backend k2 (s\<lparr>input := t1\<rparr>)) =
         [\<lparr>rq_message = t1, rq_session_id = sessionId s, rq_use_rag = useRag s\<rparr>] \<and>
       messages s1 = messages s @ [u1, a1] \<and>
       messages s2 = messages s @ [u1, a1, u2, a2] \<and>
       map m_role (messages s2) = map m_role (messages s) @ [User, Assistant, User, Assistant]"
    unfolding Let_def s1_def [symmetric]
    using h by (simp add: m1 m2 userMessage_def assistantMessage_def send_once)
qed

theorem send_success_appends_turns_witness:
  "\<not> loading example_state \<and> trim (js ''hi'') \<noteq> [] \<and>
   backend_up \<lparr>rq_message = js ''hi'', rq_session_id = sessionId example_state,
      rq_use_rag = useRag example_state\<rparr> = Inr example_answer \<and>
   map m_role (messages (snd (handleSendMessage clock1 backend_up clock2
      ((snd (handleSendMessage clock1 backend_up clock2 (example_state\<lparr>input := js ''hi''\<rparr>)))
         \<lparr>input := js ''hi''\<rparr>)))) = [User, Assistant, User, Assistant] \<and>
   map m_content (messages (snd (handleSendMessage clock1 backend_up clock2
      ((snd (handleSendMessage clock1 backend_up clock2 (example_state\<lparr>input := js ''hi''\<rparr>)))
         \<lparr>input := js ''hi''\<rparr>)))) = [js ''hi'', js ''ok'', js ''hi'', js ''ok'']"
proof -
  have a: "\<not> loading example_state \<and> trim (js ''hi'') \<noteq> []"
    using typed_state_ready by (simp add: typed_state_def)
  have b: "backend_up \<lparr>rq_message = js ''hi'', rq_session_id = sessionId example_state,
      rq_use_rag = useRag example_state\<rparr> = Inr example_answer"
    by (simp add: backend_up_def)
  have m: "messages example_state = []"
    by (simp add: example_state_def initial_state_def)
  show ?thesis
    using a b
      send_success_appends_turns [of example_state "js ''hi''" "js ''hi''" backend_up
        example_answer example_answer clock1 clock2 clock1 clock2]
    by (simp add: Let_def m example_answer_def)
qed

text \<open>
  Claim C4. When the response of a successful send has no list of sources, or an
  empty one, the assistant message in the transcript has the empty list, not an
  absent one, and no sources block is rendered for it. A sources block is rendered
  exactly for the messages whose list of sources is present and not empty.
\<close>

theorem no_citations_no_sources_block:
  "(\<not> send_blocked s \<and> backend (chat_request_of s) = Inr r \<and>
    (cr_sources r = None \<or> cr_sources r = Some []) \<longrightarrow>
      m_role (last (messages (snd (handleSendMessage k1 backend k2 s)))) = Assistant \<and>
      m_sources (last (messages (snd (handleSendMessage k1 backend k2 s)))) = Some [] \<and>
      sources_block (last (messages (snd (handleSendMessage k1 backend k2 s)))) = None) \<and>
   (sources_block m \<noteq> None \<longleftrightarrow> (\<exists>ss. m_sources m = Some ss \<and> ss \<noteq> []))"
  by (auto simp: handleSendMessage_def send_begin_def send_resolved_def assistantMessage_def
      sources_block_def Let_def split: option.splits)

theorem no_citations_no_sources_block_witness:
  "\<not> send_blocked typed_state \<and> backend_up (chat_request_of typed_state) = Inr example_answer \<and>
   cr_sources example_answer = None \<and>
   m_sources (last (messages (snd (handleSendMessage clock1 backend_up clock2 typed_state)))) = Some [] \<and>
   sources_block (last (messages (snd (handleSendMessage clock1 backend_up clock2 typed_state)))) = None"
proof -
  have a: "\<not> send_blocked typed_state"
    using typed_state_ready by (simp add: send_blocked_def typed_state_def)
  have b: "backend_up (chat_request_of typed_state) = Inr example_answer"
    by (simp add: backend_up_def)
  have c: "cr_sources example_answer = None"
    by (simp add: example_answer_def)
  show ?thesis
    using a b c
      no_citations_no_sources_block [of typed_state backend_up example_answer clock1 clock2]
    by simp
qed

text \<open>
  Claim C2, as the code has it. When the request of a send fails, the notification
  becomes an error whose text is the detail of the failure when it has one that is
  not empty, and \<open>Failed to send message\<close> otherwise; the transcript gains the user
  message and after it one assistant message with the fixed apology, without
  sources; the input is emptied and \<open>loading\<close> is off.
\<close>

theorem send_failure_reported:
  "\<not> send_blocked s \<and> backend (chat_request_of s) = Inl e \<longrightarrow>
     handleSendMessage k1 backend k2 s =
       ([\<lparr>rq_message = input s, rq_session_id = sessionId s, rq_use_rag = useRag s\<rparr>],
        s\<lparr>messages := messages s @
             [\<lparr>m_id = js ''msg_'' @ show_nat (now k1), m_role = User, m_content = input s,
               m_timestamp = iso k1, m_sources = None\<rparr>,
              \<lparr>m_id = js ''msg_'' @ show_nat (now k2) @ js ''_error'', m_role = Assistant,
               m_content = 0x274C # js '' Sorry, I encountered an error. Please try again.'',
               m_timestamp = iso k2, m_sources = None\<rparr>],
          input := [], loading := False,
          notification := Some \<lparr>n_type = Error, n_message =
             or_default (detail e) (js ''Failed to send message'')\<rparr>\<rparr>)"
  by (simp add: handleSendMessage_def send_begin_def chat_request_of_def send_rejected_def
      showNotification_def userMessage_def errorMessage_def Let_def)

theorem send_failure_reported_witness:
  "\<not> send_blocked typed_state \<and>
   backend_busy (chat_request_of typed_state) = Inl (ApiError (Some (js ''model unavailable''))) \<and>
   notification (snd (handleSendMessage clock1 backend_busy clock2 typed_state)) =
     Some \<lparr>n_type = Error, n_message = js ''model unavailable''\<rparr> \<and>
   map m_role (messages (snd (handleSendMessage clock1 backend_busy clock2 typed_state))) =
     [User, Assistant]"
proof -
  have a: "\<not> send_blocked typed_state"
    using typed_state_ready by (simp add: send_blocked_def typed_state_def)
  have b: "backend_busy (chat_request_of typed_state) = Inl (ApiError (Some (js ''model unavailable'')))"
    by (simp add: backend_busy_def)
  have m: "messages typed_state = []"
    by (simp add: typed_state_def example_state_def initial_state_def)
  show ?thesis
    using a b
      send_failure_reported [of typed_state backend_busy "ApiError (Some (js ''model unavailable''))"
        clock1 clock2]
    by (simp add: m or_default_def js_def)
qed

text \<open>
  Claim C2, as the specification states it, fails: with a server that is down and
  gives no detail, the transcript ends in an assistant message whose content is the
  canned apology, and the notification is the generic text.
\<close>

theorem send_failure_adds_canned_answer:
  "fst (handleSendMessage clock1 backend_down clock2 typed_state) =
     [\<lparr>rq_message = js ''hi'', rq_session_id = js ''session_7'', rq_use_rag = True\<rparr>] \<and>
   messages (snd (handleSendMessage clock1 backend_down clock2 typed_state)) =
     [\<lparr>m_id = js ''msg_11'', m_role = User, m_content = js ''hi'', m_timestamp = js ''T1'',
       m_sources = None\<rparr>,
      \<lparr>m_id = js ''msg_12_error'', m_role = Assistant,
       m_content = 0x274C # js '' Sorry, I encountered an error. Please try again.'',
       m_timestamp = js ''T2'', m_sources = None\<rparr>] \<and>
   notification (snd (handleSendMessage clock1 backend_down clock2 typed_state)) =
     Some \<lparr>n_type = Error, n_message = js ''Failed to send message''\<rparr>"
  by (simp add: handleSendMessage_def send_blocked_def send_begin_def chat_request_of_def
      send_rejected_def showNotification_def userMessage_def errorMessage_def Let_def
      backend_down_def typed_state_def example_state_def initial_state_def clock1_def clock2_def
      or_default_def trim_def is_ws_def whitespace_def js_def show_nat.simps)

text \<open>
  Claim C8, as the code has it. Sending the same text twice, a text with at least one
  character that is not white space, each time with no send in flight, issues the
  same request twice and appends two user messages with that text, each followed by
  the assistant message of its own request.
\<close>

theorem duplicate_sends_kept:
  "\<not> loading s \<and> trim t \<noteq> [] \<longrightarrow>
   (let rq = \<lparr>rq_message = t, rq_session_id = sessionId s, rq_use_rag = useRag s\<rparr>;
        s1 = snd (handleSendMessage k1 backend1 k2 (s\<lparr>input := t\<rparr>));
        s2 = snd (handleSendMessage k3 backend2 k4 (s1\<lparr>input := t\<rparr>))
    in fst (handleSendMessage k1 backend1 k2 (s\<lparr>input := t\<rparr>)) = [rq] \<and>
       fst (handleSendMessage k3 backend2 k4 (s1\<lparr>input := t\<rparr>)) = [rq] \<and>
       messages s2 = messages s @
         [\<lparr>m_id = js ''msg_'' @ show_nat (now k1), m_role = User, m_content = t,
           m_timestamp = iso k1, m_sources = None\<rparr>,
          (case backend1 rq of Inr r \<Rightarrow> assistantMessage k2 r | Inl e \<Rightarrow> errorMessage k2),
          \<lparr>m_id = js ''msg_'' @ show_nat (now k3), m_role = User, m_content = t,
           m_timestamp = iso k3, m_sources = None\<rparr>,
          (case backend2 rq of Inr r \<Rightarrow> assistantMessage k4 r | Inl e \<Rightarrow> errorMessage k4)])"
proof (intro impI)
  assume h: "\<not> loading s \<and> trim t \<noteq> []"
  define s1 where "s1 = snd (handleSendMessage k1 backend1 k2 (s\<lparr>input := t\<rparr>))"
  have l1: "\<not> loading s1" and i1: "sessionId s1 = sessionId s" and r1: "useRag s1 = useRag s"
    using h by (simp_all add: s1_def send_once)
  have m1: "messages s1 = messages s @
         [\<lparr>m_id = js ''msg_'' @ show_nat (now k1), m_role = User, m_content = t,
           m_timestamp = iso k1, m_sources = None\<rparr>,
          (case backend1 \<lparr>rq_message = t, rq_session_id = sessionId s, rq_use_rag = useRag s\<rparr>
             of Inr r \<Rightarrow> assistantMessage k2 r | Inl e \<Rightarrow> errorMessage k2)]"
    using h by (simp add: s1_def send_once)
  have f1: "fst (handleSendMessage k1 backend1 k2 (s\<lparr>input := t\<rparr>)) =
      [\<lparr>rq_message = t, rq_session_id = sessionId s, rq_use_rag = useRag s\<rparr>]"
    using h by (simp add: send_once)
  have f2: "fst (handleSendMessage k3 backend2 k4 (s1\<lparr>input := t\<rparr>)) =
      [\<lparr>rq_message = t, rq_session_id = sessionId s, rq_use_rag = useRag s\<rparr>]"
    using h l1 by (simp add: send_once i1 r1)
  have m2: "messages (snd (handleSendMessage k3 backend2 k4 (s1\<lparr>input := t\<rparr>))) =
      messages s1 @
         [\<lparr>m_id = js ''msg_'' @ show_nat (now k3), m_role = User, m_content = t,
           m_timestamp = iso k3, m_sources = None\<rparr>,
          (case backend2 \<lparr>rq_message = t, rq_session_id = sessionId s, rq_use_rag = useRag s\<rparr>
             of Inr r \<Rightarrow> assistantMessage k4 r | Inl e \<Rightarrow> errorMessage k4)]"
    using h l1 by (simp add: send_once i1 r1)
  show "let rq = \<lparr>rq_message = t, rq_session_id = sessionId s, rq_use_rag = useRag s\<rparr>;
        s1 = snd (handleSendMessage k1 backend1 k2 (s\<lparr>input := t\<rparr>));
        s2 = snd (handleSendMessage k3 backend2 k4 (s1\<lparr>input := t\<rparr>))
    in fst (handleSendMessage k1 backend1 k2 (s\<lparr>input := t\<rparr>)) = [rq] \<and>
       fst (handleSendMessage k3 backend2 k4 (s1\<lparr>input := t\<rparr>)) = [rq] \<and>
       messages s2 = messages s @
         [\<lparr>m_id = js ''msg_'' @ show_nat (now k1), m_role = User, m_content = t,
           m_timestamp = iso k1, m_sources = None\<rparr>,
          (case backend1 rq of Inr r \<Rightarrow> assistantMessage k2 r | Inl e \<Rightarrow> errorMessage k2),
          \<lparr>m_id = js ''msg_'' @ show_nat (now k3), m_role = User, m_content = t,
           m_timestamp = iso k3, m_sources = None\<rparr>,
          (case backend2 rq of Inr r \<Rightarrow> assistantMessage k4 r | Inl e \<Rightarrow> errorMessage k4)]"
    unfolding Let_def s1_def [symmetric]
    by (simp add: f1 [unfolded s1_def [symmetric]] f2 m1 m2)
qed

theorem duplicate_sends_kept_witness:
  "\<not> loading example_state \<and> trim (js ''hi'') \<noteq> [] \<and>
   map m_content (messages (snd (handleSendMessage clock1 backend_up clock2
      ((snd (handleSendMessage clock1 backend_down clock2 (example_state\<lparr>input := js ''hi''\<rparr>)))
         \<lparr>input := js ''hi''\<rparr>)))) =
     [js ''hi'', 0x274C # js '' Sorry, I encountered an error. Please try again.'',
      js ''hi'', js ''ok'']"
proof -
  have a: "\<not> loading example_state \<and> trim (js ''hi'') \<noteq> []"
    using typed_state_ready by (simp add: typed_state_def)
  have m: "messages example_state = []"
    by (simp add: example_state_def initial_state_def)
  show ?thesis
    using a
      duplicate_sends_kept [of example_state "js ''hi''" clock1 backend_down clock2 clock1
        backend_up clock2]
    by (simp add: Let_def m backend_up_def backend_down_def example_answer_def
        assistantMessage_def errorMessage_def)
qed

text \<open>
  Claim C8, as the specification states it, fails for a text that is not empty but
  blank: sending a single space twice issues no request and appends nothing.
\<close>

theorem blank_text_sent_twice_adds_nothing:
  "input blank_state = js '' '' \<and> js '' '' \<noteq> [] \<and> \<not> loading blank_state \<and>
   messages blank_state = [] \<and>
   fst (handleSendMessage clock1 backend_up clock2 blank_state) = [] \<and>
   snd (handleSendMessage clock1 backend_up clock2 blank_state) = blank_state \<and>
   messages (snd (handleSendMessage clock1 backend_up clock2
      (snd (handleSendMessage clock1 backend_up clock2 blank_state)))) = []"
  by (simp add: handleSendMessage_def send_blocked_def blank_state_def example_state_def
      initial_state_def trim_def is_ws_def whitespace_def js_def)

subsection \<open>Uploading\<close>

text \<open>
  Claim C3. The extension of a file is what its name holds from the last dot on, put in
  lower case. A file whose name has no dot, or whose extension is not one of \<open>.pdf\<close>,
  \<open>.txt\<close>, \<open>.docx\<close>, \<open>.pptx\<close>, \<open>.xlsx\<close>, is refused: no request is issued and the
  state changes in the notification only, which becomes the error text naming the
  allowed types; so the list of uploaded files is as before. For a file whose
  extension is in the set, exactly one upload request, for that file, is issued.
\<close>

theorem upload_checks_extension:
  "(dot \<notin> set (file_name f) \<longrightarrow>
      handleFileUpload (Some f) backend k s =
        ([], s\<lparr>notification := Some \<lparr>n_type = Error, n_message =
               js ''Unsupported file type. Allowed: .pdf, .txt, .docx, .pptx, .xlsx''\<rparr>\<rparr>)) \<and>
   (file_name f = base @ dot # ext \<and> dot \<notin> set ext \<and>
    toLowerCase (dot # ext) \<notin> {js ''.pdf'', js ''.txt'', js ''.docx'', js ''.pptx'', js ''.xlsx''} \<longrightarrow>
      handleFileUpload (Some f) backend k s =
        ([], s\<lparr>notification := Some \<lparr>n_type = Error, n_message =
               js ''Unsupported file type. Allowed: .pdf, .txt, .docx, .pptx, .xlsx''\<rparr>\<rparr>)) \<and>
   (file_name f = base @ dot # ext \<and> dot \<notin> set ext \<and>
    toLowerCase (dot # ext) \<in> {js ''.pdf'', js ''.txt'', js ''.docx'', js ''.pptx'', js ''.xlsx''} \<longrightarrow>
      fst (handleFileUpload (Some f) backend k s) = [f])"
proof -
  have a: "set allowedTypes = {js ''.pdf'', js ''.txt'', js ''.docx'', js ''.pptx'', js ''.xlsx''}"
    by (simp add: allowedTypes_def)
  have r: "fileExt (file_name f) \<notin> set allowedTypes \<Longrightarrow>
      handleFileUpload (Some f) backend k s =
        ([], s\<lparr>notification := Some \<lparr>n_type = Error, n_message =
               js ''Unsupported file type. Allowed: .pdf, .txt, .docx, .pptx, .xlsx''\<rparr>\<rparr>)"
    by (simp add: handleFileUpload_def upload_begin_def showNotification_def
        unsupported_notice_text)
  have i: "fileExt (file_name f) \<in> set allowedTypes \<Longrightarrow>
      fst (handleFileUpload (Some f) backend k s) = [f]"
    by (simp add: handleFileUpload_def split: sum.splits)
  show ?thesis
    using r i fileExt_no_dot [of "file_name f"] fileExt_last_dot [of ext base]
    unfolding a by metis
qed

theorem upload_checks_extension_witness:
  "file_name report_file = js ''a'' @ dot # js ''PDF'' \<and> dot \<notin> set (js ''PDF'') \<and>
   toLowerCase (dot # js ''PDF'') \<in> {js ''.pdf'', js ''.txt'', js ''.docx'', js ''.pptx'', js ''.xlsx''} \<and>
   fst (handleFileUpload (Some report_file) upload_up clock1 example_state) = [report_file] \<and>
   file_name program_file = js ''a'' @ dot # js ''exe'' \<and> dot \<notin> set (js ''exe'') \<and>
   toLowerCase (dot # js ''exe'') \<notin> {js ''.pdf'', js ''.txt'', js ''.docx'', js ''.pptx'', js ''.xlsx''} \<and>
   fst (handleFileUpload (Some program_file) upload_up clock1 example_state) = [] \<and>
   uploadedFiles (snd (handleFileUpload (Some program_file) upload_up clock1 example_state)) = []"
  using upload_checks_extension [of report_file upload_up clock1 example_state "js ''a''" "js ''PDF''"]
    upload_checks_extension [of program_file upload_up clock1 example_state "js ''a''" "js ''exe''"]
  by (simp add: report_file_def program_file_def js_def dot_def toLowerCase_def lower_unit_def
      example_state_def initial_state_def)

text \<open>
  Claim C5. When the upload of an accepted file succeeds, the list of uploaded files
  is the old list followed by one entry with the id, the file name and the chunk count
  of the response, and the notification is a success that names the file and reports
  that chunk count: the text between \<open>uploaded successfully!\<close> and \<open>chunks created.\<close>
  is a decimal numeral and the number it denotes is the chunk count of the response.
  Nothing else changes but the \<open>uploading\<close> flag and the file input.
\<close>

theorem upload_success_adds_entry:
  "(fileExt (file_name f) \<in> set allowedTypes \<and> backend f = Inr r \<longrightarrow>
     handleFileUpload (Some f) backend k s =
       ([f],
        s\<lparr>uploadedFiles := uploadedFiles s @
              [\<lparr>uf_file_id = ur_file_id r, uf_filename = ur_filename r,
                uf_chunks_created = ur_chunks_created r, uf_uploaded_at = iso k\<rparr>],
          notification := Some \<lparr>n_type = Success, n_message =
              file_name f @ js '' uploaded successfully! ''
                @ number_toString (ur_chunks_created r) @ js '' chunks created.''\<rparr>,
          uploading := False,
          fileInput := (case fileInput s of None \<Rightarrow> None | Some v \<Rightarrow> Some [])\<rparr>)) \<and>
   decimal_of (number_toString (ur_chunks_created r)) = Some (safe_value (ur_chunks_created r))"
  by (simp add: handleFileUpload_def upload_begin_def upload_resolved_def upload_finally_def
      showNotification_def uploadedFile_def uploaded_notice_def decimal_of_number_toString)

theorem upload_success_adds_entry_witness:
  "fileExt (file_name report_file) \<in> set allowedTypes \<and> upload_up report_file = Inr example_ingest \<and>
   safe_value (ur_chunks_created example_ingest) = 12 \<and>
   uploadedFiles (snd (handleFileUpload (Some report_file) upload_up clock1 example_state)) =
     [\<lparr>uf_file_id = js ''f1'', uf_filename = js ''a.PDF'', uf_chunks_created = Safe 12,
       uf_uploaded_at = js ''T1''\<rparr>] \<and>
   notification (snd (handleFileUpload (Some report_file) upload_up clock1 example_state)) =
     Some \<lparr>n_type = Success, n_message = js ''a.PDF uploaded successfully! 12 chunks created.''\<rparr> \<and>
   decimal_of (js ''12'') = Some 12"
proof -
  have e: "fileExt (file_name report_file) \<in> set allowedTypes"
    by (simp add: report_file_def fileExt_def lastIndexOf_def substring_def toLowerCase_def
        lower_unit_def allowedTypes_def js_def dot_def)
  have u: "upload_up report_file = Inr example_ingest"
    by (simp add: upload_up_def)
  have v: "safe_value (Safe 12) = 12"
    by (simp add: Safe_inverse)
  have n: "number_toString (Safe 12) = js ''12''"
    by (simp add: number_toString_def v show_nat.simps js_def)
  show ?thesis
    using e u upload_success_adds_entry [of report_file upload_up example_ingest clock1 example_state]
    by (simp add: example_state_def initial_state_def example_ingest_def clock1_def
        report_file_def v n js_def)
qed

text \<open>
  Claim C10. When the upload request of an accepted file fails, the state changes in
  the notification (an error: the detail of the failure, or \<open>Upload failed\<close>), the
  \<open>uploading\<close> flag and the file input only, so the list of uploaded files is exactly as
  before. Whether the request succeeds or fails, the file input, when there is one, is
  emptied.
\<close>

theorem upload_failure_keeps_list:
  "(fileExt (file_name f) \<in> set allowedTypes \<and> backend f = Inl e \<longrightarrow>
      handleFileUpload (Some f) backend k s =
        ([f],
         s\<lparr>notification := Some \<lparr>n_type = Error, n_message =
               or_default (detail e) (js ''Upload failed'')\<rparr>,
           uploading := False,
           fileInput := (case fileInput s of None \<Rightarrow> None | Some v \<Rightarrow> Some [])\<rparr>)) \<and>
   (fileExt (file_name f) \<in> set allowedTypes \<longrightarrow>
      fileInput (snd (handleFileUpload (Some f) backend k s)) =
        (case fileInput s of None \<Rightarrow> None | Some v \<Rightarrow> Some []))"
  by (simp add: handleFileUpload_def upload_begin_def upload_resolved_def upload_rejected_def
      upload_finally_def showNotification_def split: sum.splits)

theorem upload_failure_keeps_list_witness:
  "fileExt (file_name report_file) \<in> set allowedTypes \<and>
   upload_down report_file = Inl (ApiError (Some (js ''too big''))) \<and>
   uploadedFiles (snd (handleFileUpload (Some report_file) upload_down clock1 example_state)) =
     uploadedFiles example_state \<and>
   notification (snd (handleFileUpload (Some report_file) upload_down clock1 example_state)) =
     Some \<lparr>n_type = Error, n_message = js ''too big''\<rparr> \<and>
   fileInput (snd (handleFileUpload (Some report_file) upload_down clock1 example_state)) = Some [] \<and>
   fileInput (snd (handleFileUpload (Some report_file) upload_up clock1 example_state)) = Some []"
proof -
  have e: "fileExt (file_name report_file) \<in> set allowedTypes"
    by (simp add: report_file_def fileExt_def lastIndexOf_def substring_def toLowerCase_def
        lower_unit_def allowedTypes_def js_def dot_def)
  have u: "upload_down report_file = Inl (ApiError (Some (js ''too big'')))"
    by (simp add: upload_down_def)
  show ?thesis
    using e u
      upload_failure_keeps_list [of report_file upload_down "ApiError (Some (js ''too big''))"
        clock1 example_state]
      upload_failure_keeps_list [of report_file upload_up "ApiError None" clock1 example_state]
    by (simp add: example_state_def initial_state_def or_default_def js_def)
qed

subsection \<open>Clearing\<close>

text \<open>
  Claim C7. A confirmed clear empties the list of messages and shows a notification;
  no other part of the state changes, the session id in particular. A send after the
  clear carries the same session id, and its turns are the whole transcript.
\<close>

theorem clear_keeps_session:
  "handleClearChat True s =
     s\<lparr>messages := [],
       notification := Some \<lparr>n_type = Success, n_message = js ''Chat cleared''\<rparr>\<rparr> \<and>
   sessionId (handleClearChat True s) = sessionId s \<and>
   (\<not> send_blocked s \<longrightarrow>
      fst (handleSendMessage k1 backend k2 (handleClearChat True s)) =
        [\<lparr>rq_message = input s, rq_session_id = sessionId s, rq_use_rag = useRag s\<rparr>] \<and>
      messages (snd (handleSendMessage k1 backend k2 (handleClearChat True s))) =
        [\<lparr>m_id = js ''msg_'' @ show_nat (now k1), m_role = User, m_content = input s,
          m_timestamp = iso k1, m_sources = None\<rparr>,
         (case backend \<lparr>rq_message = input s, rq_session_id = sessionId s, rq_use_rag = useRag s\<rparr> of
            Inr r \<Rightarrow> assistantMessage k2 r
          | Inl e \<Rightarrow> errorMessage k2)])"
  by (simp add: handleClearChat_def showNotification_def handleSendMessage_def send_blocked_def
      send_begin_def chat_request_of_def send_resolved_def send_rejected_def userMessage_def
      Let_def split: sum.splits)

theorem clear_keeps_session_witness:
  "\<not> send_blocked (example_state\<lparr>input := js ''hi''\<rparr>) \<and>
   fst (handleSendMessage clock1 backend_up clock2
          (handleClearChat True (example_state\<lparr>input := js ''hi''\<rparr>))) =
     [\<lparr>rq_message = js ''hi'', rq_session_id = sessionId example_state, rq_use_rag = True\<rparr>] \<and>
   map m_role (messages (snd (handleSendMessage clock1 backend_up clock2
          (handleClearChat True (example_state\<lparr>input := js ''hi''\<rparr>))))) = [User, Assistant]"
proof -
  have b: "\<not> send_blocked (example_state\<lparr>input := js ''hi''\<rparr>)"
    by (simp add: send_blocked_def trim_def is_ws_def whitespace_def js_def example_state_def
        initial_state_def)
  have "fst (handleSendMessage clock1 backend_up clock2
          (handleClearChat True (example_state\<lparr>input := js ''hi''\<rparr>))) =
        [\<lparr>rq_message = input (example_state\<lparr>input := js ''hi''\<rparr>),
          rq_session_id = sessionId (example_state\<lparr>input := js ''hi''\<rparr>),
          rq_use_rag = useRag (example_state\<lparr>input := js ''hi''\<rparr>)\<rparr>] \<and>
      messages (snd (handleSendMessage clock1 backend_up clock2
          (handleClearChat True (example_state\<lparr>input := js ''hi''\<rparr>)))) =
        [\<lparr>m_id = js ''msg_'' @ show_nat (now clock1), m_role = User,
          m_content = input (example_state\<lparr>input := js ''hi''\<rparr>),
          m_timestamp = iso clock1, m_sources = None\<rparr>,
         (case backend_up \<lparr>rq_message = input (example_state\<lparr>input := js ''hi''\<rparr>),
                 rq_session_id = sessionId (example_state\<lparr>input := js ''hi''\<rparr>),
                 rq_use_rag = useRag (example_state\<lparr>input := js ''hi''\<rparr>)\<rparr> of
            Inr r \<Rightarrow> assistantMessage clock2 r
          | Inl e \<Rightarrow> errorMessage clock2)]"
    using b clear_keeps_session [of "example_state\<lparr>input := js ''hi''\<rparr>" clock1 backend_up clock2]
    by blast
  then show ?thesis
    using b by (simp add: example_state_def initial_state_def backend_up_def assistantMessage_def)
qed

subsection \<open>The transcript\<close>

text \<open>Each event keeps the invariant, and each but the confirmed clear only appends.\<close>

lemma step_keeps_sources_only_on_assistant:
  "sources_only_on_assistant (messages s) \<Longrightarrow> sources_only_on_assistant (messages (step e s))"
  by (cases e)
    (auto simp: sources_only_on_assistant_def send_begin_def send_resolved_def send_rejected_def
      upload_begin_def upload_resolved_def upload_rejected_def upload_finally_def
      handleClearChat_def notification_timeout_def showNotification_def userMessage_def
      assistantMessage_def errorMessage_def Let_def split: option.splits)

lemma run_keeps_sources_only_on_assistant:
  "sources_only_on_assistant (messages s) \<Longrightarrow> sources_only_on_assistant (messages (run es s))"
  by (induction es arbitrary: s) (simp_all add: step_keeps_sources_only_on_assistant)

lemma step_appends:
  "e \<noteq> ClearChat True \<Longrightarrow> prefix (messages s) (messages (step e s))"
  by (cases e)
    (auto simp: send_begin_def send_resolved_def send_rejected_def
      upload_begin_def upload_resolved_def upload_rejected_def upload_finally_def
      handleClearChat_def notification_timeout_def showNotification_def Let_def
      split: option.splits)

lemma run_appends:
  "ClearChat True \<notin> set es \<Longrightarrow> prefix (messages s) (messages (run es s))"
proof (induction es arbitrary: s)
  case Nil
  then show ?case by simp
next
  case (Cons e es)
  have "prefix (messages s) (messages (step e s))"
    using Cons.prems by (intro step_appends) auto
  moreover have "prefix (messages (step e s)) (messages (run es (step e s)))"
    using Cons by simp
  ultimately show ?case by (auto intro: prefix_order.trans)
qed

text \<open>
  Claim C6. In every state the component reaches from its initial state, by any
  sequence of events, every message has the role user or assistant and every user
  message is without a list of sources; the user message a send builds has none.
  Every event other than a confirmed clear leaves the old transcript as a prefix of
  the new one, and so does every sequence of events without a confirmed clear.
\<close>

theorem transcript_invariant:
  "sources_only_on_assistant (messages (run es (initial_state t fi))) \<and>
   (\<forall>m\<in>set (messages (run es (initial_state t fi))). m_role m = User \<or> m_role m = Assistant) \<and>
   m_role (userMessage k s) = User \<and> m_sources (userMessage k s) = None \<and>
   (e \<noteq> ClearChat True \<longrightarrow> prefix (messages s) (messages (step e s))) \<and>
   (ClearChat True \<notin> set es \<longrightarrow> prefix (messages s) (messages (run es s)))"
proof -
  have "sources_only_on_assistant (messages (initial_state t fi))"
    by (simp add: sources_only_on_assistant_def initial_state_def)
  then have "sources_only_on_assistant (messages (run es (initial_state t fi)))"
    by (rule run_keeps_sources_only_on_assistant)
  moreover have "\<forall>m\<in>set (messages (run es (initial_state t fi))). m_role m = User \<or> m_role m = Assistant"
    by (metis role.exhaust)
  ultimately show ?thesis
    by (simp add: userMessage_def step_appends run_appends)
qed

theorem transcript_invariant_witness:
  "ClearChat True \<notin> set example_events \<and>
   map m_role (messages (run example_events example_state)) = [User, Assistant, User, Assistant] \<and>
   map m_sources (messages (run example_events example_state)) = [None, Some [], None, None] \<and>
   sources_only_on_assistant (messages (run example_events example_state)) \<and>
   prefix (messages (run (take 4 example_events) example_state))
     (messages (run (drop 4 example_events) (run (take 4 example_events) example_state)))"
proof -
  have c: "ClearChat True \<notin> set example_events"
    by (simp add: example_events_def)
  have d: "ClearChat True \<notin> set (drop 4 example_events)"
    by (simp add: example_events_def)
  have b: "trim (js ''hi'') \<noteq> []"
    using typed_state_ready by simp
  have r: "map m_role (messages (run example_events example_state)) = [User, Assistant, User, Assistant] \<and>
   map m_sources (messages (run example_events example_state)) = [None, Some [], None, None]"
    using b
    by (simp add: example_events_def example_state_def initial_state_def send_begin_def
        send_blocked_def send_resolved_def send_rejected_def showNotification_def userMessage_def
        assistantMessage_def errorMessage_def example_answer_def Let_def)
  show ?thesis
    using c d r
      transcript_invariant [of example_events 7 "Some (js ''C:/fakepath/a.pdf'')" clock1
        "run (take 4 example_events) example_state" "ToggleRag" ]
      transcript_invariant [of "drop 4 example_events" 7 "Some (js ''C:/fakepath/a.pdf'')" clock1
        "run (take 4 example_events) example_state" "ToggleRag" ]
    by (simp add: example_state_def)
qed

end
